theory Spec2Isabelle
  imports Complex_Main "HOL-Library.Log_Nat"
begin

section \<open>JavaScript numbers\<close>

text \<open>
  The simulation of \<^verbatim>\<open>task-1/src/simulation/dataModel.ts\<close> computes with JavaScript
  numbers, which are binary64 floating-point numbers. A finite number is the rational it
  denotes; the three non-finite numbers and the value \<^verbatim>\<open>undefined\<close> (which an absent
  property reads as) are kept apart, with the arithmetic the language gives them:
  \<^verbatim>\<open>undefined\<close> converts to \<^verbatim>\<open>NaN\<close> in every arithmetic operation and comparison. The two
  zeros are not told apart; no operation of the program does.
\<close>

datatype jsval = Fin rat | PInf | NInf | NaN | Undefined

fun isFinite :: "jsval \<Rightarrow> bool" where
  "isFinite (Fin a) = True"
| "isFinite _ = False"

subsection \<open>Rounding to binary64\<close>

text \<open>
  The sum, difference or product of two finite numbers is the exact result, rounded to the
  nearest binary64 number, ties to the one with an even significand (the only rounding mode
  of the language). A binary64 number is \<open>n * 2 ^ e\<close> with \<open>\<bar>n\<bar> < 2 ^ 53\<close> and
  \<open>- 1074 \<le> e\<close>; a result that rounds to \<open>2 ^ 1024\<close> or beyond in magnitude is an infinity.
  \<open>ilog2 x\<close> is the integer part of the binary logarithm of a positive \<open>x\<close>.
\<close>

definition roundTiesToEven :: "rat \<Rightarrow> int" where
  "roundTiesToEven q =
    (let f = \<lfloor>q\<rfloor>; r = q - of_int f
     in if r < 1 / 2 then f else if 1 / 2 < r then f + 1 else if even f then f else f + 1)"

definition ilog2 :: "rat \<Rightarrow> int" where
  "ilog2 x = (case quotient_of x of (p, q) \<Rightarrow>
     (let k = bitlen p - bitlen q in if 2 powi k \<le> x then k else k - 1))"

definition round64 :: "rat \<Rightarrow> jsval" where
  "round64 x =
    (if x = 0 then Fin 0
     else
       let e = max (ilog2 \<bar>x\<bar> - 52) (- 1074);
           y = of_int (roundTiesToEven (x * 2 powi (- e))) * 2 powi e
       in if 2 ^ 1024 \<le> \<bar>y\<bar> then (if 0 < x then PInf else NInf) else Fin y)"

text \<open>Arithmetic without rounding, for comparison: every exact result is kept.\<close>

definition exact :: "rat \<Rightarrow> jsval" where
  "exact x = Fin x"

subsection \<open>Operators\<close>

text \<open>
  The binary operators \<^verbatim>\<open>+\<close>, \<^verbatim>\<open>-\<close>, \<^verbatim>\<open>*\<close> and \<^verbatim>\<open><\<close> on numbers. The first three take the
  rounding \<open>rnd\<close> of an exact result as a parameter: the program runs with
  \<open>rnd = round64\<close>. A decimal literal of the source, such as \<^verbatim>\<open>0.8\<close>, is the rounding of
  the decimal, \<open>rnd 0.8\<close>; the integer literals of the source are binary64 numbers as they are.
\<close>

fun js_add :: "(rat \<Rightarrow> jsval) \<Rightarrow> jsval \<Rightarrow> jsval \<Rightarrow> jsval" where
  "js_add rnd (Fin a) (Fin b) = rnd (a + b)"
| "js_add rnd NaN _ = NaN"
| "js_add rnd _ NaN = NaN"
| "js_add rnd Undefined _ = NaN"
| "js_add rnd _ Undefined = NaN"
| "js_add rnd PInf NInf = NaN"
| "js_add rnd NInf PInf = NaN"
| "js_add rnd PInf _ = PInf"
| "js_add rnd _ PInf = PInf"
| "js_add rnd NInf _ = NInf"
| "js_add rnd _ NInf = NInf"

fun js_sub :: "(rat \<Rightarrow> jsval) \<Rightarrow> jsval \<Rightarrow> jsval \<Rightarrow> jsval" where
  "js_sub rnd (Fin a) (Fin b) = rnd (a - b)"
| "js_sub rnd NaN _ = NaN"
| "js_sub rnd _ NaN = NaN"
| "js_sub rnd Undefined _ = NaN"
| "js_sub rnd _ Undefined = NaN"
| "js_sub rnd PInf PInf = NaN"
| "js_sub rnd NInf NInf = NaN"
| "js_sub rnd PInf _ = PInf"
| "js_sub rnd _ PInf = NInf"
| "js_sub rnd NInf _ = NInf"
| "js_sub rnd _ NInf = PInf"

fun js_mul :: "(rat \<Rightarrow> jsval) \<Rightarrow> jsval \<Rightarrow> jsval \<Rightarrow> jsval" where
  "js_mul rnd (Fin a) (Fin b) = rnd (a * b)"
| "js_mul rnd NaN _ = NaN"
| "js_mul rnd _ NaN = NaN"
| "js_mul rnd Undefined _ = NaN"
| "js_mul rnd _ Undefined = NaN"
| "js_mul rnd PInf (Fin b) = (if b = 0 then NaN else if 0 < b then PInf else NInf)"
| "js_mul rnd NInf (Fin b) = (if b = 0 then NaN else if 0 < b then NInf else PInf)"
| "js_mul rnd (Fin a) PInf = (if a = 0 then NaN else if 0 < a then PInf else NInf)"
| "js_mul rnd (Fin a) NInf = (if a = 0 then NaN else if 0 < a then NInf else PInf)"
| "js_mul rnd PInf PInf = PInf"
| "js_mul rnd PInf NInf = NInf"
| "js_mul rnd NInf PInf = NInf"
| "js_mul rnd NInf NInf = PInf"

fun js_lt :: "jsval \<Rightarrow> jsval \<Rightarrow> bool" where
  "js_lt (Fin a) (Fin b) = (a < b)"
| "js_lt NaN _ = False"
| "js_lt _ NaN = False"
| "js_lt Undefined _ = False"
| "js_lt _ Undefined = False"
| "js_lt NInf NInf = False"
| "js_lt NInf _ = True"
| "js_lt PInf _ = False"
| "js_lt (Fin a) PInf = True"
| "js_lt (Fin a) NInf = False"

text \<open>
  Comparison, \<^verbatim>\<open>Math.abs\<close> and \<^verbatim>\<open>Math.max\<close> are exact. \<^verbatim>\<open>Math.max\<close> is taken of the
  spread of a list (\<^verbatim>\<open>-Infinity\<close> for no argument, \<^verbatim>\<open>NaN\<close> as soon as one argument is
  \<^verbatim>\<open>NaN\<close>).
\<close>

fun Math_abs :: "jsval \<Rightarrow> jsval" where
  "Math_abs (Fin a) = Fin \<bar>a\<bar>"
| "Math_abs PInf = PInf"
| "Math_abs NInf = PInf"
| "Math_abs NaN = NaN"
| "Math_abs Undefined = NaN"

fun max2 :: "jsval \<Rightarrow> jsval \<Rightarrow> jsval" where
  "max2 NaN _ = NaN"
| "max2 _ NaN = NaN"
| "max2 Undefined _ = NaN"
| "max2 _ Undefined = NaN"
| "max2 a b = (if js_lt a b then b else a)"

definition Math_max :: "jsval list \<Rightarrow> jsval" where
  "Math_max xs = foldl max2 NInf xs"

section \<open>Types for attributes, blocks, context and scenarios\<close>

datatype AttributeType = input | calculated

record SimulationContext =
  materialCost :: jsval
  energyCost :: jsval
  disposalCost :: jsval
  co2Cost :: jsval
  transportCost :: jsval
  logisticsCost :: jsval
  ecoFees :: jsval

record Attribute =
  type :: AttributeType
  "value" :: "jsval option"
  formula :: "(SimulationContext \<Rightarrow> jsval) option"

type_synonym Block = "(string \<times> Attribute) list"

record Blocks =
  Production :: Block
  Logistics :: Block

text \<open>An object of optional numeric properties, as a scenario holds for each block.\<close>

type_synonym Overrides = "string \<rightharpoonup> jsval"

record Scenario =
  Production :: "Overrides option"
  Logistics :: "Overrides option"

text \<open>
  What a JavaScript exception of the run can be. The only one the code can meet is the
  runtime's \<^verbatim>\<open>TypeError\<close>, thrown when a formula that is not there is called. The code has
  no \<^verbatim>\<open>throw\<close> statement; \<open>ConfigError\<close> and \<open>ValidationError\<close> are the error kinds of the
  design's taxonomy, here so that properties about them can be stated.
\<close>

datatype error = TypeError | ConfigError | ValidationError

section \<open>The model definition\<close>

definition blocks :: "(rat \<Rightarrow> jsval) \<Rightarrow> Blocks" where
  "blocks rnd = \<lparr>
     Blocks.Production = [
       (''materialCost'', \<lparr>type = input, value = Some (Fin 120), formula = None\<rparr>),
       (''energyCost'', \<lparr>type = input, value = Some (Fin 60), formula = None\<rparr>),
       (''disposalCost'', \<lparr>type = calculated, value = None,
          formula = Some (\<lambda>ctx. js_add rnd (js_mul rnd (materialCost ctx) (rnd 0.8)) (co2Cost ctx))\<rparr>),
       (''co2Cost'', \<lparr>type = calculated, value = None,
          formula = Some (\<lambda>ctx. js_add rnd (js_mul rnd (energyCost ctx) (rnd 0.1))
                                       (js_mul rnd (disposalCost ctx) (rnd 0.05)))\<rparr>)],
     Blocks.Logistics = [
       (''transportCost'', \<lparr>type = input, value = Some (Fin 35), formula = None\<rparr>),
       (''logisticsCost'', \<lparr>type = calculated, value = None,
          formula = Some (\<lambda>ctx. js_add rnd (transportCost ctx) (ecoFees ctx))\<rparr>),
       (''ecoFees'', \<lparr>type = calculated, value = None,
          formula = Some (\<lambda>ctx. js_add rnd (js_mul rnd (logisticsCost ctx) (rnd 0.1))
                                       (js_mul rnd (co2Cost ctx) (rnd 0.05)))\<rparr>)]\<rparr>"

definition Base :: Scenario where
  "Base = \<lparr>
     Scenario.Production = Some [''materialCost'' \<mapsto> Fin 120, ''energyCost'' \<mapsto> Fin 60],
     Scenario.Logistics = Some [''transportCost'' \<mapsto> Fin 35]\<rparr>"

definition HighEnergyPrices :: Scenario where
  "HighEnergyPrices = \<lparr>
     Scenario.Production = Some [''energyCost'' \<mapsto> Fin 90],
     Scenario.Logistics = Some [''transportCost'' \<mapsto> Fin 40]\<rparr>"

definition scenarios :: "(string \<times> Scenario) list" where
  "scenarios = [(''Base'', Base), (''HighEnergyPrices'', HighEnergyPrices)]"

section \<open>runSimulation\<close>

text \<open>\<^verbatim>\<open>x || {}\<close> for an optional object \<open>x\<close>; spreading \<^verbatim>\<open>...x\<close> copies the same
  properties, none when \<open>x\<close> is \<^verbatim>\<open>undefined\<close>.\<close>

definition orEmpty :: "Overrides option \<Rightarrow> Overrides" where
  "orEmpty x = (case x of None \<Rightarrow> Map.empty | Some m \<Rightarrow> m)"

text \<open>Reading a property of an object: \<^verbatim>\<open>undefined\<close> when it is absent (the
  \<^verbatim>\<open>!\<close> of the source is a compile-time assertion only).\<close>

definition readProp :: "Overrides \<Rightarrow> string \<Rightarrow> jsval" where
  "readProp obj name = (case obj name of None \<Rightarrow> Undefined | Some v \<Rightarrow> v)"

text \<open>Lines 83 to 109: the merge of Base, the named scenario and the manual overrides,
  and the initial context.\<close>

definition initialContext :: "string \<Rightarrow> Scenario option \<Rightarrow> SimulationContext" where
  "initialContext scenarioName manualOverrides =
    (let baseProduction = Scenario.Production Base;
         baseLogistics = Scenario.Logistics Base;
         scenario = (case map_of scenarios scenarioName of
                       None \<Rightarrow> \<lparr>Scenario.Production = None, Scenario.Logistics = None\<rparr>
                     | Some s \<Rightarrow> s);
         scenarioProduction = orEmpty (Scenario.Production scenario);
         scenarioLogistics = orEmpty (Scenario.Logistics scenario);
         finalProduction = orEmpty baseProduction ++ scenarioProduction ++
           orEmpty (case manualOverrides of None \<Rightarrow> None | Some m \<Rightarrow> Scenario.Production m);
         finalLogistics = orEmpty baseLogistics ++ scenarioLogistics ++
           orEmpty (case manualOverrides of None \<Rightarrow> None | Some m \<Rightarrow> Scenario.Logistics m)
     in \<lparr>materialCost = readProp finalProduction ''materialCost'',
         energyCost = readProp finalProduction ''energyCost'',
         disposalCost = Fin 0,
         co2Cost = Fin 0,
         transportCost = readProp finalLogistics ''transportCost'',
         logisticsCost = Fin 0,
         ecoFees = Fin 0\<rparr>)"

text \<open>\<^verbatim>\<open>block.name.formula!(context)\<close>: calling a formula that is absent is the runtime's
  \<^verbatim>\<open>TypeError\<close>.\<close>

definition callFormula :: "Block \<Rightarrow> string \<Rightarrow> SimulationContext \<Rightarrow> error + jsval" where
  "callFormula block name context =
    (case map_of block name of
       None \<Rightarrow> Inl TypeError
     | Some attribute \<Rightarrow>
        (case formula attribute of
           None \<Rightarrow> Inl TypeError
         | Some f \<Rightarrow> Inr (f context)))"

text \<open>Lines 114 to 117: the four assignments of one pass, each on the context as the
  assignments before it left it.\<close>

definition relaxationPass ::
  "(rat \<Rightarrow> jsval) \<Rightarrow> SimulationContext \<Rightarrow> error + SimulationContext" where
  "relaxationPass rnd context =
    (case callFormula (Blocks.Production (blocks rnd)) ''disposalCost'' context of
       Inl e \<Rightarrow> Inl e
     | Inr v1 \<Rightarrow>
        (let context1 = context\<lparr>disposalCost := v1\<rparr> in
         case callFormula (Blocks.Production (blocks rnd)) ''co2Cost'' context1 of
           Inl e \<Rightarrow> Inl e
         | Inr v2 \<Rightarrow>
            (let context2 = context1\<lparr>co2Cost := v2\<rparr> in
             case callFormula (Blocks.Logistics (blocks rnd)) ''logisticsCost'' context2 of
               Inl e \<Rightarrow> Inl e
             | Inr v3 \<Rightarrow>
                (let context3 = context2\<lparr>logisticsCost := v3\<rparr> in
                 case callFormula (Blocks.Logistics (blocks rnd)) ''ecoFees'' context3 of
                   Inl e \<Rightarrow> Inl e
                 | Inr v4 \<Rightarrow> Inr (context3\<lparr>ecoFees := v4\<rparr>)))))"

text \<open>Lines 119 to 124: the deltas of a pass against the snapshot \<open>prev\<close>.\<close>

definition deltas ::
  "(rat \<Rightarrow> jsval) \<Rightarrow> SimulationContext \<Rightarrow> SimulationContext \<Rightarrow> jsval list" where
  "deltas rnd prev context =
    [Math_abs (js_sub rnd (disposalCost context) (disposalCost prev)),
     Math_abs (js_sub rnd (co2Cost context) (co2Cost prev)),
     Math_abs (js_sub rnd (logisticsCost context) (logisticsCost prev)),
     Math_abs (js_sub rnd (ecoFees context) (ecoFees prev))]"

text \<open>Lines 111 to 137: the \<^verbatim>\<open>for\<close> loop, with its counter \<open>i\<close>; \<open>maxIterations\<close> is a
  count of passes, a natural number. The \<open>debug\<close> flag only prints, and is left out.
  Arguments are passed explicitly: the defaults of the signature (\<^verbatim>\<open>"Base"\<close>, 100, 0.001, no
  overrides) are what a call that omits them passes.\<close>

function loop ::
  "(rat \<Rightarrow> jsval) \<Rightarrow> nat \<Rightarrow> nat \<Rightarrow> jsval \<Rightarrow> SimulationContext \<Rightarrow> error + SimulationContext" where
  "loop rnd i maxIterations threshold context =
    (if i < maxIterations then
       (case relaxationPass rnd context of
          Inl e \<Rightarrow> Inl e
        | Inr context' \<Rightarrow>
            if js_lt (Math_max (deltas rnd context context')) threshold then Inr context'
            else loop rnd (Suc i) maxIterations threshold context')
     else Inr context)"
  by pat_completeness auto
termination
  by (relation "measure (\<lambda>(rnd, i, maxIterations, threshold, context). maxIterations - i)") auto

definition runSimulation ::
  "(rat \<Rightarrow> jsval) \<Rightarrow> string \<Rightarrow> nat \<Rightarrow> jsval \<Rightarrow> Scenario option \<Rightarrow> error + SimulationContext" where
  "runSimulation rnd scenarioName maxIterations threshold manualOverrides =
     loop rnd 0 maxIterations threshold (initialContext scenarioName manualOverrides)"

section \<open>Notions used to state the properties\<close>

text \<open>The context a pass leaves behind (a pass never fails, see \<open>relaxationPass_total\<close>), and
  the value of \<^verbatim>\<open>Math.max(...deltas)\<close> that the pass started on \<open>context\<close> computes.\<close>

definition afterPass :: "(rat \<Rightarrow> jsval) \<Rightarrow> SimulationContext \<Rightarrow> SimulationContext" where
  "afterPass rnd context =
    (case relaxationPass rnd context of Inl e \<Rightarrow> context | Inr context' \<Rightarrow> context')"

definition maxDelta :: "(rat \<Rightarrow> jsval) \<Rightarrow> SimulationContext \<Rightarrow> jsval" where
  "maxDelta rnd context = Math_max (deltas rnd context (afterPass rnd context))"

definition finiteContext :: "SimulationContext \<Rightarrow> bool" where
  "finiteContext c \<longleftrightarrow>
     isFinite (materialCost c) \<and> isFinite (energyCost c) \<and> isFinite (disposalCost c) \<and>
     isFinite (co2Cost c) \<and> isFinite (transportCost c) \<and> isFinite (logisticsCost c) \<and>
     isFinite (ecoFees c)"

text \<open>The value a caller's manual overrides give to an attribute of a block, if any; the
  value the named scenario of the catalog gives to it, if any; and the baseline declared on
  the attribute in \<open>blocks\<close>.\<close>

definition manualValue ::
  "Scenario option \<Rightarrow> (Scenario \<Rightarrow> Overrides option) \<Rightarrow> string \<Rightarrow> jsval option" where
  "manualValue manualOverrides block name =
    (case manualOverrides of None \<Rightarrow> None | Some m \<Rightarrow> orEmpty (block m) name)"

definition scenarioValue ::
  "string \<Rightarrow> (Scenario \<Rightarrow> Overrides option) \<Rightarrow> string \<Rightarrow> jsval option" where
  "scenarioValue scenarioName block name =
    (case map_of scenarios scenarioName of None \<Rightarrow> None | Some s \<Rightarrow> orEmpty (block s) name)"

definition baseline :: "Block \<Rightarrow> string \<Rightarrow> jsval" where
  "baseline block name =
    (case map_of block name of
       None \<Rightarrow> Undefined
     | Some attribute \<Rightarrow> (case value attribute of None \<Rightarrow> Undefined | Some v \<Rightarrow> v))"

text \<open>The precedence as the specification words it: manual override, else the named
  scenario's value, else the Base scenario's value, else the declared baseline.\<close>

definition resolveSpec :: "jsval option \<Rightarrow> jsval option \<Rightarrow> jsval option \<Rightarrow> jsval \<Rightarrow> jsval" where
  "resolveSpec manual named base declared =
    (case manual of
       Some v \<Rightarrow> v
     | None \<Rightarrow>
        (case named of
           Some v \<Rightarrow> v
         | None \<Rightarrow> (case base of Some v \<Rightarrow> v | None \<Rightarrow> declared)))"

text \<open>Manual overrides with the entries of \<open>p\<close> added to the Production part and those of
  \<open>l\<close> to the Logistics part.\<close>

definition withEntries :: "Scenario option \<Rightarrow> Overrides \<Rightarrow> Overrides \<Rightarrow> Scenario option" where
  "withEntries manualOverrides p l =
    Some \<lparr>Scenario.Production =
            Some (orEmpty (case manualOverrides of None \<Rightarrow> None
                           | Some m \<Rightarrow> Scenario.Production m) ++ p),
          Scenario.Logistics =
            Some (orEmpty (case manualOverrides of None \<Rightarrow> None
                           | Some m \<Rightarrow> Scenario.Logistics m) ++ l)\<rparr>"

definition calculatedNames :: "string set" where
  "calculatedNames = {''disposalCost'', ''co2Cost'', ''logisticsCost'', ''ecoFees''}"

section \<open>Properties\<close>

subsection \<open>Rounding\<close>

lemma powi2_unique:
  fixes x :: rat
  assumes "2 powi a \<le> x" "x < 2 powi (a + 1)" "2 powi b \<le> x" "x < 2 powi (b + 1)"
  shows "a = b"
proof (rule ccontr)
  assume "a \<noteq> b"
  then consider "a + 1 \<le> b" | "b + 1 \<le> a" by linarith
  then show False
  proof cases
    case 1
    then have "(2::rat) powi (a + 1) \<le> 2 powi b" by (intro power_int_increasing) simp_all
    with assms show False by linarith
  next
    case 2
    then have "(2::rat) powi (b + 1) \<le> 2 powi a" by (intro power_int_increasing) simp_all
    with assms show False by linarith
  qed
qed

text \<open>\<open>ilog2\<close> is the integer binary logarithm.\<close>

lemma ilog2_bounds:
  assumes "0 < x"
  shows "2 powi (ilog2 x) \<le> x \<and> x < 2 powi (ilog2 x + 1)"
proof -
  obtain p q where pq: "quotient_of x = (p, q)" by (cases "quotient_of x")
  then have q: "0 < q" and x: "x = of_int p / of_int q"
    by (simp_all add: quotient_of_denom_pos quotient_of_div)
  with assms have p: "0 < p" by (simp add: zero_less_divide_iff)
  let ?bp = "bitlen p" and ?bq = "bitlen q"
  from bitlen_bounds[OF p] have p1: "2 ^ nat (?bp - 1) \<le> p" and p2: "p < 2 ^ nat ?bp" by simp_all
  from bitlen_bounds[OF q] have q1: "2 ^ nat (?bq - 1) \<le> q" and q2: "q < 2 ^ nat ?bq" by simp_all
  have bp: "1 \<le> ?bp" using p bitlen_eq_zero_iff[of p] bitlen_nonneg[of p] by linarith
  have bq: "1 \<le> ?bq" using q bitlen_eq_zero_iff[of q] bitlen_nonneg[of q] by linarith
  have P1: "(2::rat) powi (?bp - 1) \<le> of_int p"
  proof -
    have "(of_int (2 ^ nat (?bp - 1)) :: rat) \<le> of_int p" using p1 by (simp only: of_int_le_iff)
    then show ?thesis using bp by (simp add: power_int_nonneg_exp)
  qed
  have P2: "of_int p < (2::rat) powi ?bp"
  proof -
    have "(of_int p :: rat) < of_int (2 ^ nat ?bp)" using p2 by (simp only: of_int_less_iff)
    then show ?thesis using bp by (simp add: power_int_nonneg_exp)
  qed
  have Q1: "(2::rat) powi (?bq - 1) \<le> of_int q"
  proof -
    have "(of_int (2 ^ nat (?bq - 1)) :: rat) \<le> of_int q" using q1 by (simp only: of_int_le_iff)
    then show ?thesis using bq by (simp add: power_int_nonneg_exp)
  qed
  have Q2: "of_int q < (2::rat) powi ?bq"
  proof -
    have "(of_int q :: rat) < of_int (2 ^ nat ?bq)" using q2 by (simp only: of_int_less_iff)
    then show ?thesis using bq by (simp add: power_int_nonneg_exp)
  qed
  have qpos: "(0::rat) < of_int q" using q by simp
  have up: "x < 2 powi (?bp - ?bq + 1)"
  proof -
    have "of_int p < (2::rat) powi ?bp" by (rule P2)
    also have "\<dots> = 2 powi (?bp - ?bq + 1) * 2 powi (?bq - 1)"
      by (simp add: power_int_add [symmetric])
    also have "\<dots> \<le> 2 powi (?bp - ?bq + 1) * of_int q"
      using Q1 by (intro mult_left_mono) simp_all
    finally show ?thesis using qpos by (simp add: x pos_divide_less_eq)
  qed
  have lo: "2 powi (?bp - ?bq - 1) \<le> x"
  proof -
    have "(2::rat) powi (?bp - ?bq - 1) * of_int q \<le> 2 powi (?bp - ?bq - 1) * 2 powi ?bq"
      using Q2 by (intro mult_left_mono) simp_all
    also have "\<dots> = 2 powi (?bp - 1)" by (simp add: power_int_add [symmetric])
    also have "\<dots> \<le> of_int p" by (rule P1)
    finally show ?thesis using qpos by (simp add: x pos_le_divide_eq)
  qed
  show ?thesis
  proof (cases "2 powi (?bp - ?bq) \<le> x")
    case True
    then have "ilog2 x = ?bp - ?bq" by (simp add: ilog2_def pq)
    with True up show ?thesis by simp
  next
    case False
    then have "ilog2 x = ?bp - ?bq - 1" by (simp add: ilog2_def pq)
    with False lo show ?thesis by simp
  qed
qed

lemma ilog2_unique: "2 powi k \<le> x \<Longrightarrow> x < 2 powi (k + 1) \<Longrightarrow> ilog2 x = k"
proof -
  assume a: "2 powi k \<le> x" "x < 2 powi (k + 1)"
  have "(0::rat) < 2 powi k" by simp
  with a have "0 < x" by linarith
  from ilog2_bounds[OF this] a show ?thesis by (intro powi2_unique[of "ilog2 x" x k]) simp_all
qed

lemma roundTiesToEven_near: "\<bar>q - of_int n\<bar> < 1 / 2 \<Longrightarrow> roundTiesToEven q = n"
proof -
  assume a: "\<bar>q - of_int n\<bar> < 1 / 2"
  show ?thesis
  proof (cases "of_int n \<le> q")
    case True
    with a have "\<lfloor>q\<rfloor> = n" by (intro floor_unique) linarith+
    with a True show ?thesis by (simp add: roundTiesToEven_def Let_def)
  next
    case False
    have n1: "(of_int (n - 1) :: rat) = of_int n - 1" by simp
    have "of_int (n - 1) \<le> q" "q < of_int (n - 1) + 1" unfolding n1 using a False by linarith+
    then have f: "\<lfloor>q\<rfloor> = n - 1" by (intro floor_unique)
    have "1 / 2 < q - of_int (n - 1)" unfolding n1 using a False by linarith
    with f show ?thesis by (simp add: roundTiesToEven_def Let_def)
  qed
qed

lemma round64_zero: "round64 0 = Fin 0"
  by (simp add: round64_def)

text \<open>
  How a rounding is checked: for \<open>x\<close> with \<open>2 ^ 52 * s \<le> \<bar>x\<bar> < 2 ^ 53 * s\<close>, where
  \<open>s = 2 ^ e\<close> is the spacing of the binary64 numbers there, the multiple \<open>n * s\<close> that is
  closer to \<open>x\<close> than \<open>s / 2\<close> is the rounding of \<open>x\<close>; for an \<open>x\<close> halfway between two
  multiples, it is the even one. With \<open>e \<le> 970\<close> the result is below \<open>2 ^ 1024\<close>.
\<close>

lemma rounded_bound:
  fixes s x :: rat
  assumes "s = 2 powi e" and "e \<le> 970"
    and "\<bar>x\<bar> < s * 2 ^ 53" and "\<bar>x - of_int n * s\<bar> \<le> s / 2"
  shows "\<bar>of_int n * s\<bar> < 2 ^ 1024"
proof -
  have s: "0 < s" by (simp add: assms(1))
  have "\<bar>of_int n * s\<bar> \<le> \<bar>x\<bar> + \<bar>x - of_int n * s\<bar>" by linarith
  also have "\<dots> < s * 2 ^ 53 + s / 2" using assms(3,4) by linarith
  finally have "\<bar>of_int n :: rat\<bar> * s < (2 ^ 53 + 1 / 2) * s"
    using s by (simp add: abs_mult algebra_simps)
  then have "\<bar>of_int n :: rat\<bar> < 2 ^ 53 + 1 / 2" using s by simp
  then have "(of_int \<bar>n\<bar> :: rat) < of_int (2 ^ 53) + 1 / 2" by simp
  then have "(of_int \<bar>n\<bar> :: rat) < of_int (2 ^ 53 + 1)" by simp
  then have "\<bar>n\<bar> < 2 ^ 53 + 1" by (simp only: of_int_less_iff)
  then have "\<bar>n\<bar> \<le> 2 ^ 53" by simp
  then have "(of_int \<bar>n\<bar> :: rat) \<le> of_int (2 ^ 53)" by (simp only: of_int_le_iff)
  then have n: "\<bar>of_int n :: rat\<bar> \<le> 2 ^ 53" by simp
  have "s \<le> 2 powi 970"
    unfolding assms(1) using assms(2) by (intro power_int_increasing) simp_all
  then have s970: "s \<le> 2 ^ 970" by simp
  have "\<bar>of_int n * s\<bar> = \<bar>of_int n :: rat\<bar> * s" using s by (simp add: abs_mult)
  also have "\<dots> \<le> 2 ^ 53 * 2 ^ 970" using n s970 s by (intro mult_mono) simp_all
  also have "\<dots> < (2 ^ 1024 :: rat)" by simp
  finally show ?thesis .
qed

lemma round64_exponent:
  fixes s x :: rat
  assumes "s = 2 powi e" and "- 1074 \<le> e"
    and "s * 2 ^ 52 \<le> \<bar>x\<bar>" and "\<bar>x\<bar> < s * 2 ^ 53"
  shows "max (ilog2 \<bar>x\<bar> - 52) (- 1074) = e"
proof -
  have "(2::rat) powi (e + 52) = s * 2 ^ 52" by (simp add: assms(1) power_int_add)
  moreover have "(2::rat) powi (e + 52 + 1) = s * 2 ^ 53" by (simp add: assms(1) power_int_add)
  ultimately have "ilog2 \<bar>x\<bar> = e + 52" using assms(3,4) by (intro ilog2_unique) simp_all
  then show ?thesis using assms(2) by simp
qed

lemma round64_check:
  assumes "s = 2 powi e" and "- 1074 \<le> e" and "e \<le> 970"
    and "s * 2 ^ 52 \<le> \<bar>x\<bar>" and "\<bar>x\<bar> < s * 2 ^ 53"
    and "\<bar>x - of_int n * s\<bar> < s / 2"
    and "y = of_int n * s"
  shows "round64 x = Fin y"
proof -
  have s: "0 < s" by (simp add: assms(1))
  have e: "max (ilog2 \<bar>x\<bar> - 52) (- 1074) = e" by (rule round64_exponent[OF assms(1,2,4,5)])
  have inv: "(2::rat) powi (- e) = 1 / s" by (simp add: assms(1) power_int_minus_divide)
  have "\<bar>x / s - of_int n\<bar> = \<bar>x - of_int n * s\<bar> / s" using s by (simp add: field_simps abs_if)
  also have "\<dots> < 1 / 2" using assms(6) s by (simp add: pos_divide_less_eq)
  finally have "roundTiesToEven (x * 2 powi (- e)) = n"
    unfolding inv by (intro roundTiesToEven_near) simp
  moreover have "x \<noteq> 0" using assms(4) s by auto
  moreover have "\<bar>of_int n * s\<bar> < 2 ^ 1024"
    using assms(6) by (intro rounded_bound[OF assms(1,3,5)]) simp
  ultimately show ?thesis by (simp add: round64_def e Let_def assms(1)[symmetric] assms(7))
qed

lemma round64_check_tie:
  assumes "s = 2 powi e" and "- 1074 \<le> e" and "e \<le> 970"
    and "s * 2 ^ 52 \<le> \<bar>x\<bar>" and "\<bar>x\<bar> < s * 2 ^ 53"
    and "x = (of_int f + 1 / 2) * s"
    and "n = (if even f then f else f + 1)"
    and "y = of_int n * s"
  shows "round64 x = Fin y"
proof -
  have s: "0 < s" by (simp add: assms(1))
  have e: "max (ilog2 \<bar>x\<bar> - 52) (- 1074) = e" by (rule round64_exponent[OF assms(1,2,4,5)])
  have inv: "(2::rat) powi (- e) = 1 / s" by (simp add: assms(1) power_int_minus_divide)
  have q: "x * (1 / s) = of_int f + 1 / 2" using s by (simp add: assms(6))
  have fl: "\<lfloor>of_int f + (1 / 2 :: rat)\<rfloor> = f" by (intro floor_unique) simp_all
  have "roundTiesToEven (x * 2 powi (- e)) = n"
    unfolding inv q by (simp add: roundTiesToEven_def Let_def fl assms(7))
  moreover have "x \<noteq> 0" using assms(4) s by auto
  moreover have "\<bar>of_int n * s\<bar> < 2 ^ 1024"
  proof (rule rounded_bound[OF assms(1,3,5)])
    have "x - of_int n * s = (of_int f + 1 / 2 - of_int n) * s"
      by (simp add: assms(6) algebra_simps)
    also have "\<bar>\<dots>\<bar> = \<bar>of_int f + 1 / 2 - (of_int n :: rat)\<bar> * s"
      using s by (simp add: abs_mult)
    also have "\<bar>of_int f + 1 / 2 - (of_int n :: rat)\<bar> = 1 / 2"
      by (simp add: assms(7))
    finally show "\<bar>x - of_int n * s\<bar> \<le> s / 2" by simp
  qed
  ultimately show ?thesis by (simp add: round64_def e Let_def assms(1)[symmetric] assms(8))
qed

text \<open>Beyond the largest binary64 number the rounding is an infinity; half the smallest
  positive one rounds to zero.\<close>

lemma round64_overflow: "round64 (2 ^ 1024) = PInf"
proof -
  have "ilog2 \<bar>2 ^ 1024 :: rat\<bar> = 1024" by (intro ilog2_unique) simp_all
  then have e: "max (ilog2 \<bar>2 ^ 1024 :: rat\<bar> - 52) (- 1074) = 972" by simp
  have q: "(2 ^ 1024 :: rat) * 2 powi (- 972) = of_int (2 ^ 52)"
    by (simp add: power_int_minus_divide)
  have r: "roundTiesToEven (of_int (2 ^ 52)) = 2 ^ 52"
    by (intro roundTiesToEven_near) simp
  show ?thesis
    unfolding round64_def Let_def e q r by simp
qed

lemma round64_underflow: "round64 (1 / 2 ^ 1075) = Fin 0"
proof -
  have "ilog2 \<bar>1 / 2 ^ 1075 :: rat\<bar> = - 1075"
    by (intro ilog2_unique) (simp_all add: power_int_minus_divide)
  then have e: "max (ilog2 \<bar>1 / 2 ^ 1075 :: rat\<bar> - 52) (- 1074) = - 1074" by simp
  have q: "(1 / 2 ^ 1075 :: rat) * 2 powi (- (- 1074)) = 1 / 2" by simp
  have fl: "\<lfloor>1 / 2 :: rat\<rfloor> = 0" by (intro floor_unique) simp_all
  have r: "roundTiesToEven (1 / 2) = 0"
    by (simp add: roundTiesToEven_def Let_def fl)
  show ?thesis
    unfolding round64_def Let_def e q r by simp
qed

subsection \<open>Roundings used below\<close>

lemma round64_value_1:
  "round64 (4 / 5) = Fin (3602879701896397 / 4503599627370496)"
  by (rule round64_check[where s = "1 / 9007199254740992" and e = "- 53"
        and n = "7205759403792794"]) simp_all

lemma round64_value_2:
  "round64 (54043195528445955 / 562949953421312) = Fin (96)"
  by (rule round64_check[where s = "1 / 70368744177664" and e = "- 46"
        and n = "6755399441055744"]) simp_all

lemma round64_value_3:
  "round64 (96) = Fin (96)"
  by (rule round64_check[where s = "1 / 70368744177664" and e = "- 46"
        and n = "6755399441055744"]) simp_all

lemma round64_value_4:
  "round64 (1 / 10) = Fin (3602879701896397 / 36028797018963968)"
  by (rule round64_check[where s = "1 / 72057594037927936" and e = "- 56"
        and n = "7205759403792794"]) simp_all

lemma round64_value_5:
  "round64 (54043195528445955 / 9007199254740992) = Fin (6)"
  by (rule round64_check[where s = "1 / 1125899906842624" and e = "- 50"
        and n = "6755399441055744"]) simp_all

lemma round64_value_6:
  "round64 (1 / 20) = Fin (3602879701896397 / 72057594037927936)"
  by (rule round64_check[where s = "1 / 144115188075855872" and e = "- 57"
        and n = "7205759403792794"]) simp_all

lemma round64_value_7:
  "round64 (10808639105689191 / 2251799813685248) = Fin (1351079888211149 / 281474976710656)"
  by (rule round64_check_tie[where s = "1 / 1125899906842624" and e = "- 50" and f = "5404319552844595"
        and n = "5404319552844596"]) simp_all

lemma round64_value_8:
  "round64 (3039929748475085 / 281474976710656) = Fin (3039929748475085 / 281474976710656)"
  by (rule round64_check[where s = "1 / 562949953421312" and e = "- 49"
        and n = "6079859496950170"]) simp_all

lemma round64_value_9:
  "round64 (35) = Fin (35)"
  by (rule round64_check[where s = "1 / 140737488355328" and e = "- 47"
        and n = "4925812092436480"]) simp_all

lemma round64_value_10:
  "round64 (126100789566373895 / 36028797018963968) = Fin (7 / 2)"
  by (rule round64_check[where s = "1 / 2251799813685248" and e = "- 51"
        and n = "7881299347898368"]) simp_all

lemma round64_value_11:
  "round64 (10952501185971903357493405768745 / 20282409603651670423947251286016) = Fin (607985949695017 / 1125899906842624)"
  by (rule round64_check[where s = "1 / 9007199254740992" and e = "- 53"
        and n = "4863887597560136"]) simp_all

lemma round64_value_12:
  "round64 (4548635623644201 / 1125899906842624) = Fin (4548635623644201 / 1125899906842624)"
  by (rule round64_check[where s = "1 / 1125899906842624" and e = "- 50"
        and n = "4548635623644201"]) simp_all

lemma round64_value_13:
  "round64 (3602879701896397 / 4503599627370496) = Fin (3602879701896397 / 4503599627370496)"
  by (rule round64_check[where s = "1 / 9007199254740992" and e = "- 53"
        and n = "7205759403792794"]) simp_all

lemma round64_value_14:
  "round64 (32425917317067573 / 36028797018963968) = Fin (8106479329266893 / 9007199254740992)"
  by (rule round64_check[where s = "1 / 9007199254740992" and e = "- 53"
        and n = "8106479329266893"]) simp_all

lemma round64_value_15:
  "round64 (12980742146337070512478121581609 / 324518553658426726783156020576256) = Fin (1441151880758559 / 36028797018963968)"
  by (rule round64_check[where s = "1 / 144115188075855872" and e = "- 57"
        and n = "5764607523034236"]) simp_all

lemma round64_value_16:
  "round64 (33867069197826131 / 36028797018963968) = Fin (8466767299456533 / 9007199254740992)"
  by (rule round64_check[where s = "1 / 9007199254740992" and e = "- 53"
        and n = "8466767299456533"]) simp_all

lemma round64_value_17:
  "round64 (30504744043892115884467570811601 / 649037107316853453566312041152512) = Fin (6773413839565227 / 144115188075855872)"
  by (rule round64_check[where s = "1 / 144115188075855872" and e = "- 57"
        and n = "6773413839565227"]) simp_all

lemma round64_value_18:
  "round64 (6773413839565227 / 144115188075855872) = Fin (6773413839565227 / 144115188075855872)"
  by (rule round64_check[where s = "1 / 144115188075855872" and e = "- 57"
        and n = "6773413839565227"]) simp_all

lemma round64_value_19:
  "round64 (8466767299456533 / 9007199254740992) = Fin (8466767299456533 / 9007199254740992)"
  by (rule round64_check[where s = "1 / 9007199254740992" and e = "- 53"
        and n = "8466767299456533"]) simp_all

lemma round64_value_20:
  "round64 (15672526703249327 / 9007199254740992) = Fin (979532918953083 / 562949953421312)"
  by (rule round64_check_tie[where s = "1 / 4503599627370496" and e = "- 52" and f = "7836263351624663"
        and n = "7836263351624664"]) simp_all

lemma round64_value_21:
  "round64 (3529139271035391282018969741951 / 40564819207303340847894502572032) = Fin (1567252670324933 / 18014398509481984)"
  by (rule round64_check[where s = "1 / 72057594037927936" and e = "- 56"
        and n = "6269010681299732"]) simp_all

lemma round64_value_22:
  "round64 (17780211328858719 / 18014398509481984) = Fin (555631604026835 / 562949953421312)"
  by (rule round64_check_tie[where s = "1 / 9007199254740992" and e = "- 53" and f = "8890105664429359"
        and n = "8890105664429360"]) simp_all

lemma round64_value_23:
  "round64 (24403795235113694869301877787119 / 5192296858534827628530496329220096) = Fin (2709365535826091 / 576460752303423488)"
  by (rule round64_check[where s = "1 / 1152921504606846976" and e = "- 60"
        and n = "5418731071652182"]) simp_all

lemma round64_value_24:
  "round64 (2001873827880420183731177813495 / 40564819207303340847894502572032) = Fin (111126320805367 / 2251799813685248)"
  by (rule round64_check[where s = "1 / 144115188075855872" and e = "- 57"
        and n = "7112084531543488"]) simp_all

lemma round64_value_25:
  "round64 (31157703662000043 / 576460752303423488) = Fin (7789425915500011 / 144115188075855872)"
  by (rule round64_check[where s = "1 / 144115188075855872" and e = "- 57"
        and n = "7789425915500011"]) simp_all

lemma round64_value_26:
  "round64 (4233383649728267 / 4503599627370496) = Fin (4233383649728267 / 4503599627370496)"
  by (rule round64_check[where s = "1 / 9007199254740992" and e = "- 53"
        and n = "8466767299456534"]) simp_all

lemma round64_value_27:
  "round64 (423338364972827 / 9007199254740992) = Fin (423338364972827 / 9007199254740992)"
  by (rule round64_check[where s = "1 / 144115188075855872" and e = "- 57"
        and n = "6773413839565232"]) simp_all

lemma round64_value_28:
  "round64 (15875188686481 / 2251799813685248) = Fin (15875188686481 / 2251799813685248)"
  by (rule round64_check[where s = "1 / 1152921504606846976" and e = "- 60"
        and n = "8128096607478272"]) simp_all

lemma round64_value_29:
  "round64 (3289429167831410461 / 36028797018963968) = Fin (1606166585855181 / 17592186044416)"
  by (rule round64_check[where s = "1 / 70368744177664" and e = "- 46"
        and n = "6424666343420724"]) simp_all

lemma round64_value_30:
  "round64 (27049745261894045 / 281474976710656) = Fin (6762436315473511 / 70368744177664)"
  by (rule round64_check[where s = "1 / 70368744177664" and e = "- 46"
        and n = "6762436315473511"]) simp_all

lemma round64_value_31:
  "round64 (24364244536386572610981719839867 / 5070602400912917605986812821504) = Fin (5409949052378809 / 1125899906842624)"
  by (rule round64_check[where s = "1 / 1125899906842624" and e = "- 50"
        and n = "5409949052378809"]) simp_all

lemma round64_value_32:
  "round64 (9350598726327993 / 1125899906842624) = Fin (1168824840790999 / 140737488355328)"
  by (rule round64_check_tie[where s = "1 / 562949953421312" and e = "- 49" and f = "4675299363163996"
        and n = "4675299363163996"]) simp_all

lemma round64_value_33:
  "round64 (6762436315473511 / 70368744177664) = Fin (6762436315473511 / 70368744177664)"
  by (rule round64_check[where s = "1 / 70368744177664" and e = "- 46"
        and n = "6762436315473511"]) simp_all

lemma round64_value_34:
  "round64 (1168824840790999 / 140737488355328) = Fin (1168824840790999 / 140737488355328)"
  by (rule round64_check[where s = "1 / 562949953421312" and e = "- 49"
        and n = "4675299363163996"]) simp_all

lemma round64_value_35:
  "round64 (13517835756529255 / 70368744177664) = Fin (1689729469566157 / 8796093022208)"
  by (rule round64_check_tie[where s = "1 / 35184372088832" and e = "- 45" and f = "6758917878264627"
        and n = "6758917878264628"]) simp_all

lemma round64_value_36:
  "round64 (6087892007596072759209751436329 / 633825300114114700748351602688) = Fin (5407134302611703 / 562949953421312)"
  by (rule round64_check[where s = "1 / 562949953421312" and e = "- 49"
        and n = "5407134302611703"]) simp_all

lemma round64_value_37:
  "round64 (56804465049977495 / 562949953421312) = Fin (7100558131247187 / 70368744177664)"
  by (rule round64_check[where s = "1 / 70368744177664" and e = "- 46"
        and n = "7100558131247187"]) simp_all

lemma round64_value_38:
  "round64 (6094636933227479 / 140737488355328) = Fin (6094636933227479 / 140737488355328)"
  by (rule round64_check[where s = "1 / 140737488355328" and e = "- 47"
        and n = "6094636933227479"]) simp_all

lemma round64_value_39:
  "round64 (21958243697153390767538091493163 / 5070602400912917605986812821504) = Fin (4875709546581983 / 1125899906842624)"
  by (rule round64_check[where s = "1 / 1125899906842624" and e = "- 50"
        and n = "4875709546581983"]) simp_all

lemma round64_value_40:
  "round64 (25582456763205902862826671685239 / 5070602400912917605986812821504) = Fin (2840223252498875 / 562949953421312)"
  by (rule round64_check[where s = "1 / 1125899906842624" and e = "- 50"
        and n = "5680446504997750"]) simp_all

lemma round64_value_41:
  "round64 (10556156051579733 / 1125899906842624) = Fin (2639039012894933 / 281474976710656)"
  by (rule round64_check_tie[where s = "1 / 562949953421312" and e = "- 49" and f = "5278078025789866"
        and n = "5278078025789866"]) simp_all

lemma round64_value_42:
  "round64 (845304539434189 / 8796093022208) = Fin (845304539434189 / 8796093022208)"
  by (rule round64_check[where s = "1 / 70368744177664" and e = "- 46"
        and n = "6762436315473512"]) simp_all

lemma round64_value_43:
  "round64 (84530453943419 / 17592186044416) = Fin (84530453943419 / 17592186044416)"
  by (rule round64_check[where s = "1 / 1125899906842624" and e = "- 50"
        and n = "5409949052378816"]) simp_all

lemma round64_value_44:
  "round64 (301389331312935 / 281474976710656) = Fin (301389331312935 / 281474976710656)"
  by (rule round64_check[where s = "1 / 4503599627370496" and e = "- 52"
        and n = "4822229301006960"]) simp_all

lemma round64_value_45:
  "round64 (1 / 1000) = Fin (1152921504606847 / 1152921504606846976)"
  by (rule round64_check[where s = "1 / 4611686018427387904" and e = "- 62"
        and n = "4611686018427388"]) simp_all

lemma round64_value_46:
  "round64 (- (4233383649728267 / 4503599627370496)) = Fin (- (4233383649728267 / 4503599627370496))"
  by (rule round64_check[where s = "1 / 9007199254740992" and e = "- 53"
        and n = "- 8466767299456534"]) simp_all

lemma round64_value_47:
  "round64 (- (6773413839565227 / 144115188075855872)) = Fin (- (6773413839565227 / 144115188075855872))"
  by (rule round64_check[where s = "1 / 144115188075855872" and e = "- 57"
        and n = "- 6773413839565227"]) simp_all

lemmas round64_values = round64_zero round64_value_1 round64_value_2 round64_value_3
  round64_value_4 round64_value_5 round64_value_6 round64_value_7 round64_value_8
  round64_value_9 round64_value_10 round64_value_11 round64_value_12 round64_value_13
  round64_value_14 round64_value_15 round64_value_16 round64_value_17 round64_value_18
  round64_value_19 round64_value_20 round64_value_21 round64_value_22 round64_value_23
  round64_value_24 round64_value_25 round64_value_26 round64_value_27 round64_value_28
  round64_value_29 round64_value_30 round64_value_31 round64_value_32 round64_value_33
  round64_value_34 round64_value_35 round64_value_36 round64_value_37 round64_value_38
  round64_value_39 round64_value_40 round64_value_41 round64_value_42 round64_value_43
  round64_value_44 round64_value_45 round64_value_46 round64_value_47

subsection \<open>One pass\<close>

lemma relaxationPass_eq:
  "relaxationPass rnd c = Inr (c\<lparr>
      disposalCost := js_add rnd (js_mul rnd (materialCost c) (rnd 0.8)) (co2Cost c),
      co2Cost := js_add rnd (js_mul rnd (energyCost c) (rnd 0.1))
                   (js_mul rnd (js_add rnd (js_mul rnd (materialCost c) (rnd 0.8)) (co2Cost c)) (rnd 0.05)),
      logisticsCost := js_add rnd (transportCost c) (ecoFees c),
      ecoFees := js_add rnd (js_mul rnd (js_add rnd (transportCost c) (ecoFees c)) (rnd 0.1))
                   (js_mul rnd (js_add rnd (js_mul rnd (energyCost c) (rnd 0.1))
                   (js_mul rnd (js_add rnd (js_mul rnd (materialCost c) (rnd 0.8)) (co2Cost c)) (rnd 0.05))) (rnd 0.05))\<rparr>)"
  by (simp add: relaxationPass_def callFormula_def blocks_def)

lemma relaxationPass_total: "relaxationPass rnd c = Inr (afterPass rnd c)"
  by (simp add: afterPass_def relaxationPass_eq)

lemma afterPass_eq:
  "afterPass rnd c = c\<lparr>
      disposalCost := js_add rnd (js_mul rnd (materialCost c) (rnd 0.8)) (co2Cost c),
      co2Cost := js_add rnd (js_mul rnd (energyCost c) (rnd 0.1))
                   (js_mul rnd (js_add rnd (js_mul rnd (materialCost c) (rnd 0.8)) (co2Cost c)) (rnd 0.05)),
      logisticsCost := js_add rnd (transportCost c) (ecoFees c),
      ecoFees := js_add rnd (js_mul rnd (js_add rnd (transportCost c) (ecoFees c)) (rnd 0.1))
                   (js_mul rnd (js_add rnd (js_mul rnd (energyCost c) (rnd 0.1))
                   (js_mul rnd (js_add rnd (js_mul rnd (materialCost c) (rnd 0.8)) (co2Cost c)) (rnd 0.05))) (rnd 0.05))\<rparr>"
  by (simp add: afterPass_def relaxationPass_eq)

subsection \<open>The loop in terms of the passes\<close>

lemma loop_exhausts:
  "\<forall>j < n - i. \<not> js_lt (maxDelta rnd ((afterPass rnd ^^ j) c)) th \<Longrightarrow>
   loop rnd i n th c = Inr ((afterPass rnd ^^ (n - i)) c)"
proof (induction rnd i n th c rule: loop.induct)
  case (1 rnd i n th c)
  show ?case
  proof (cases "i < n")
    case False
    then show ?thesis by (subst loop.simps) simp
  next
    case True
    then have ni: "n - i = Suc (n - Suc i)" by simp
    from 1(2) True have nc: "\<not> js_lt (Math_max (deltas rnd c (afterPass rnd c))) th"
      by (auto simp: maxDelta_def dest: spec[where x=0])
    have "\<forall>j < n - Suc i. \<not> js_lt (maxDelta rnd ((afterPass rnd ^^ j) (afterPass rnd c))) th"
    proof (intro allI impI)
      fix j assume "j < n - Suc i"
      then have "Suc j < n - i" using True by simp
      with 1(2) have "\<not> js_lt (maxDelta rnd ((afterPass rnd ^^ Suc j) c)) th" by blast
      then show "\<not> js_lt (maxDelta rnd ((afterPass rnd ^^ j) (afterPass rnd c))) th"
        by (simp add: funpow_swap1)
    qed
    with 1(1)[OF True relaxationPass_total nc]
    have "loop rnd (Suc i) n th (afterPass rnd c) = Inr ((afterPass rnd ^^ (n - Suc i)) (afterPass rnd c))" .
    then show ?thesis
      using True nc
      by (subst loop.simps) (simp add: relaxationPass_total ni funpow_swap1 del: loop.simps)
  qed
qed

lemma loop_converges:
  "i + k < n \<Longrightarrow> \<forall>j < k. \<not> js_lt (maxDelta rnd ((afterPass rnd ^^ j) c)) th \<Longrightarrow>
   js_lt (maxDelta rnd ((afterPass rnd ^^ k) c)) th \<Longrightarrow>
   loop rnd i n th c = Inr ((afterPass rnd ^^ Suc k) c)"
proof (induction k arbitrary: i c)
  case 0
  then show ?case
    by (subst loop.simps) (simp add: relaxationPass_total maxDelta_def del: loop.simps)
next
  case (Suc k)
  from Suc.prems(2) have nc: "\<not> js_lt (Math_max (deltas rnd c (afterPass rnd c))) th"
    by (auto simp: maxDelta_def dest: spec[where x=0])
  have a: "Suc i + k < n" using Suc.prems(1) by simp
  have b: "\<forall>j < k. \<not> js_lt (maxDelta rnd ((afterPass rnd ^^ j) (afterPass rnd c))) th"
  proof (intro allI impI)
    fix j assume "j < k"
    then have "Suc j < Suc k" by simp
    with Suc.prems(2) have "\<not> js_lt (maxDelta rnd ((afterPass rnd ^^ Suc j) c)) th" by blast
    then show "\<not> js_lt (maxDelta rnd ((afterPass rnd ^^ j) (afterPass rnd c))) th"
      by (simp add: funpow_swap1)
  qed
  have c: "js_lt (maxDelta rnd ((afterPass rnd ^^ k) (afterPass rnd c))) th"
    using Suc.prems(3) by (simp add: funpow_swap1)
  from Suc.IH[OF a b c]
  have "loop rnd (Suc i) n th (afterPass rnd c) = Inr ((afterPass rnd ^^ Suc k) (afterPass rnd c))" .
  moreover have "i < n" using Suc.prems(1) by simp
  ultimately show ?case
    using nc by (subst loop.simps) (simp add: relaxationPass_total funpow_swap1 del: loop.simps)
qed

subsection \<open>Every run returns a context\<close>

lemma loop_result:
  "\<exists>m. m \<le> n - i \<and> (i < n \<longrightarrow> 0 < m) \<and> loop rnd i n th c = Inr ((afterPass rnd ^^ m) c)"
proof (induction rnd i n th c rule: loop.induct)
  case (1 rnd i n th c)
  show ?case
  proof (cases "i < n")
    case False
    then have "loop rnd i n th c = Inr ((afterPass rnd ^^ 0) c)" by (subst loop.simps) simp
    with False show ?thesis by blast
  next
    case True
    show ?thesis
    proof (cases "js_lt (Math_max (deltas rnd c (afterPass rnd c))) th")
      case conv: True
      with True have "loop rnd i n th c = Inr ((afterPass rnd ^^ Suc 0) c)"
        by (subst loop.simps) (simp add: relaxationPass_total del: loop.simps)
      moreover have "Suc 0 \<le> n - i" using True by simp
      ultimately show ?thesis by blast
    next
      case nc: False
      from 1[OF True relaxationPass_total nc] obtain m where
        m: "m \<le> n - Suc i"
          "loop rnd (Suc i) n th (afterPass rnd c) = Inr ((afterPass rnd ^^ m) (afterPass rnd c))"
        by blast
      from True nc m(2) have "loop rnd i n th c = Inr ((afterPass rnd ^^ Suc m) c)"
        by (subst loop.simps) (simp add: relaxationPass_total funpow_swap1 del: loop.simps)
      moreover have "Suc m \<le> n - i" using m(1) True by simp
      ultimately show ?thesis by blast
    qed
  qed
qed


lemma afterPass_inputs:
  "materialCost (afterPass rnd c) = materialCost c"
  "energyCost (afterPass rnd c) = energyCost c"
  "transportCost (afterPass rnd c) = transportCost c"
  by (simp_all add: afterPass_eq)

lemma funpow_afterPass_inputs:
  "materialCost ((afterPass rnd ^^ m) c) = materialCost c \<and>
   energyCost ((afterPass rnd ^^ m) c) = energyCost c \<and>
   transportCost ((afterPass rnd ^^ m) c) = transportCost c"
  by (induction m) (simp_all add: afterPass_inputs)

lemma runSimulation_result:
  "\<exists>m. m \<le> n \<and> runSimulation rnd s n th ov = Inr ((afterPass rnd ^^ m) (initialContext s ov))"
  using loop_result[of n 0 rnd th "initialContext s ov"] by (auto simp: runSimulation_def)

subsection \<open>The initial context\<close>

lemma initialContext_calculated:
  "disposalCost (initialContext s ov) = Fin 0"
  "co2Cost (initialContext s ov) = Fin 0"
  "logisticsCost (initialContext s ov) = Fin 0"
  "ecoFees (initialContext s ov) = Fin 0"
  by (simp_all add: initialContext_def Let_def)

lemma orEmpty_simps: "orEmpty None = Map.empty" "orEmpty (Some m) = m"
  by (simp_all add: orEmpty_def)

lemma Base_values:
  "orEmpty (Scenario.Production Base) ''materialCost'' = Some (Fin 120)"
  "orEmpty (Scenario.Production Base) ''energyCost'' = Some (Fin 60)"
  "orEmpty (Scenario.Logistics Base) ''transportCost'' = Some (Fin 35)"
  by (simp_all add: Base_def orEmpty_def)

lemma initialContext_materialCost:
  "materialCost (initialContext s ov) =
     resolveSpec (manualValue ov Scenario.Production ''materialCost'')
       (scenarioValue s Scenario.Production ''materialCost'')
       (orEmpty (Scenario.Production Base) ''materialCost'')
       (baseline (Blocks.Production (blocks rnd)) ''materialCost'')"
  by (auto simp: initialContext_def Let_def readProp_def resolveSpec_def manualValue_def
      scenarioValue_def Base_values map_add_def orEmpty_simps split: option.splits)

lemma initialContext_energyCost:
  "energyCost (initialContext s ov) =
     resolveSpec (manualValue ov Scenario.Production ''energyCost'')
       (scenarioValue s Scenario.Production ''energyCost'')
       (orEmpty (Scenario.Production Base) ''energyCost'')
       (baseline (Blocks.Production (blocks rnd)) ''energyCost'')"
  by (auto simp: initialContext_def Let_def readProp_def resolveSpec_def manualValue_def
      scenarioValue_def Base_values map_add_def orEmpty_simps split: option.splits)

lemma initialContext_transportCost:
  "transportCost (initialContext s ov) =
     resolveSpec (manualValue ov Scenario.Logistics ''transportCost'')
       (scenarioValue s Scenario.Logistics ''transportCost'')
       (orEmpty (Scenario.Logistics Base) ''transportCost'')
       (baseline (Blocks.Logistics (blocks rnd)) ''transportCost'')"
  by (auto simp: initialContext_def Let_def readProp_def resolveSpec_def manualValue_def
      scenarioValue_def Base_values map_add_def orEmpty_simps split: option.splits)

lemma initialContext_unknown:
  "map_of scenarios s = None \<Longrightarrow> initialContext s ov = initialContext ''Base'' ov"
  by (simp add: initialContext_def Let_def scenarios_def orEmpty_def Base_def)

lemma initialContext_withEntries:
  assumes "dom p \<subseteq> calculatedNames" "dom l \<subseteq> calculatedNames"
  shows "initialContext s (withEntries ov p l) = initialContext s ov"
proof -
  have p: "p ''materialCost'' = None" "p ''energyCost'' = None"
    using assms(1) by (auto simp: calculatedNames_def)
  have l: "l ''transportCost'' = None"
    using assms(2) by (auto simp: calculatedNames_def)
  show ?thesis
    by (simp add: initialContext_def Let_def withEntries_def readProp_def map_add_def p l orEmpty_def
        split: option.splits)
qed

lemma resolveSpec_manual: "resolveSpec (Some v) named base declared = v"
  by (simp add: resolveSpec_def)

subsection \<open>The convergence test\<close>

lemma js_add_NaN_right: "js_add rnd v NaN = NaN"
  by (cases v) simp_all






subsection \<open>Three runs in binary64\<close>

text \<open>The first pass on the defaults of Base. Its co2Cost, ecoFees and maximum delta are the
  binary64 numbers written 10.8, 4.04 and 96.\<close>

lemma binary64_Base_pass1:
  "afterPass round64
     \<lparr>materialCost = Fin 120, energyCost = Fin 60, disposalCost = Fin 0,
       co2Cost = Fin 0, transportCost = Fin 35, logisticsCost = Fin 0,
       ecoFees = Fin 0\<rparr> =
     \<lparr>materialCost = Fin 120, energyCost = Fin 60, disposalCost = Fin 96,
       co2Cost = Fin (3039929748475085 / 281474976710656), transportCost = Fin 35,
       logisticsCost = Fin 35,
       ecoFees = Fin (4548635623644201 / 1125899906842624)\<rparr>"
  by (simp add: afterPass_eq round64_values)

lemma binary64_Base_delta1:
  "maxDelta round64
     \<lparr>materialCost = Fin 120, energyCost = Fin 60, disposalCost = Fin 0,
       co2Cost = Fin 0, transportCost = Fin 35, logisticsCost = Fin 0,
       ecoFees = Fin 0\<rparr> = Fin 96"
  by (simp add: maxDelta_def binary64_Base_pass1 deltas_def Math_max_def round64_values)







subsection \<open>Finite contexts in exact arithmetic\<close>

lemma isFinite_iff: "isFinite v \<longleftrightarrow> (\<exists>a. v = Fin a)"
  by (cases v) simp_all

lemma finiteContext_obtain:
  assumes "finiteContext c"
  obtains m e d k t l f where
    "c = \<lparr>materialCost = Fin m, energyCost = Fin e, disposalCost = Fin d, co2Cost = Fin k,
          transportCost = Fin t, logisticsCost = Fin l, ecoFees = Fin f\<rparr>"
proof -
  from assms obtain m e d k t l f where
    "materialCost c = Fin m" "energyCost c = Fin e" "disposalCost c = Fin d" "co2Cost c = Fin k"
    "transportCost c = Fin t" "logisticsCost c = Fin l" "ecoFees c = Fin f"
    unfolding finiteContext_def isFinite_iff by blast
  then have "c = \<lparr>materialCost = Fin m, energyCost = Fin e, disposalCost = Fin d, co2Cost = Fin k,
          transportCost = Fin t, logisticsCost = Fin l, ecoFees = Fin f\<rparr>"
    by (cases c) simp
  then show ?thesis by (rule that)
qed

lemma afterPass_Fin:
  "afterPass exact \<lparr>materialCost = Fin m, energyCost = Fin e, disposalCost = Fin d, co2Cost = Fin k,
          transportCost = Fin t, logisticsCost = Fin l, ecoFees = Fin f\<rparr> =
   \<lparr>materialCost = Fin m, energyCost = Fin e, disposalCost = Fin (m * 0.8 + k),
    co2Cost = Fin (e * 0.1 + (m * 0.8 + k) * 0.05),
    transportCost = Fin t, logisticsCost = Fin (t + f),
    ecoFees = Fin ((t + f) * 0.1 + (e * 0.1 + (m * 0.8 + k) * 0.05) * 0.05)\<rparr>"
  by (simp add: afterPass_eq exact_def)

lemma Math_max_Fin4:
  "Math_max [Fin a, Fin b, Fin c, Fin d] = Fin (max (max (max a b) c) d)"
  by (simp add: Math_max_def max_def)

lemma maxDelta_Fin:
  "maxDelta exact \<lparr>materialCost = Fin m, energyCost = Fin e, disposalCost = Fin d, co2Cost = Fin k,
          transportCost = Fin t, logisticsCost = Fin l, ecoFees = Fin f\<rparr> =
   Fin (max (max (max \<bar>m * 0.8 + k - d\<bar> \<bar>e * 0.1 + (m * 0.8 + k) * 0.05 - k\<bar>) \<bar>t + f - l\<bar>)
            \<bar>(t + f) * 0.1 + (e * 0.1 + (m * 0.8 + k) * 0.05) * 0.05 - f\<bar>)"
  unfolding maxDelta_def afterPass_Fin deltas_def by (simp add: Math_max_Fin4 exact_def)





lemma initialContext_Base:
  "initialContext ''Base'' None =
     \<lparr>materialCost = Fin 120, energyCost = Fin 60, disposalCost = Fin 0, co2Cost = Fin 0,
      transportCost = Fin 35, logisticsCost = Fin 0, ecoFees = Fin 0\<rparr>"
  by (simp add: initialContext_def Let_def scenarios_def Base_def orEmpty_def readProp_def)


text \<open>In exact arithmetic, the context a converging pass leaves satisfies the four
  equations within the threshold.\<close>

lemma exact_converged_pass_equations:
  assumes fin: "finiteContext c" and conv: "js_lt (maxDelta exact c) th"
    and r: "r = afterPass exact c"
  shows "js_lt (Math_abs (js_sub exact (disposalCost r)
            (js_add exact (js_mul exact (materialCost r) (exact 0.8)) (co2Cost r)))) th \<and>
         js_lt (Math_abs (js_sub exact (co2Cost r)
            (js_add exact (js_mul exact (energyCost r) (exact 0.1)) (js_mul exact (disposalCost r) (exact 0.05))))) th \<and>
         js_lt (Math_abs (js_sub exact (logisticsCost r)
            (js_add exact (transportCost r) (ecoFees r)))) th \<and>
         js_lt (Math_abs (js_sub exact (ecoFees r)
            (js_add exact (js_mul exact (logisticsCost r) (exact 0.1)) (js_mul exact (co2Cost r) (exact 0.05))))) th"
proof -
  from fin obtain m e d k t l f where c:
    "c = \<lparr>materialCost = Fin m, energyCost = Fin e, disposalCost = Fin d, co2Cost = Fin k,
          transportCost = Fin t, logisticsCost = Fin l, ecoFees = Fin f\<rparr>"
    by (rule finiteContext_obtain)
  define d1 where "d1 = m * 0.8 + k"
  define k1 where "k1 = e * 0.1 + d1 * 0.05"
  define l1 where "l1 = t + f"
  define f1 where "f1 = l1 * 0.1 + k1 * 0.05"
  have rr: "r = \<lparr>materialCost = Fin m, energyCost = Fin e, disposalCost = Fin d1,
      co2Cost = Fin k1, transportCost = Fin t, logisticsCost = Fin l1, ecoFees = Fin f1\<rparr>"
    by (simp add: r c afterPass_Fin d1_def k1_def l1_def f1_def)
  have md: "maxDelta exact c = Fin (max (max (max \<bar>d1 - d\<bar> \<bar>k1 - k\<bar>) \<bar>l1 - l\<bar>) \<bar>f1 - f\<bar>)"
    by (simp add: c maxDelta_Fin d1_def k1_def l1_def f1_def)
  have v1: "js_sub exact (disposalCost r) (js_add exact (js_mul exact (materialCost r) (exact 0.8)) (co2Cost r))
      = Fin (k - k1)"
    by (simp add: rr d1_def exact_def)
  have v2: "js_sub exact (co2Cost r)
      (js_add exact (js_mul exact (energyCost r) (exact 0.1)) (js_mul exact (disposalCost r) (exact 0.05))) = Fin 0"
    by (simp add: rr k1_def exact_def)
  have v3: "js_sub exact (logisticsCost r) (js_add exact (transportCost r) (ecoFees r)) = Fin (f - f1)"
    by (simp add: rr l1_def exact_def)
  have v4: "js_sub exact (ecoFees r)
      (js_add exact (js_mul exact (logisticsCost r) (exact 0.1)) (js_mul exact (co2Cost r) (exact 0.05))) = Fin 0"
    by (simp add: rr f1_def exact_def)
  show ?thesis
  proof (cases th)
    case (Fin h)
    with conv md have "max (max (max \<bar>d1 - d\<bar> \<bar>k1 - k\<bar>) \<bar>l1 - l\<bar>) \<bar>f1 - f\<bar> < h"
      by simp
    then have "\<bar>k1 - k\<bar> < h" and "\<bar>f1 - f\<bar> < h" by simp_all
    then have "\<bar>k - k1\<bar> < h" and "\<bar>f - f1\<bar> < h" and "0 < h" by linarith+
    then show ?thesis unfolding v1 v2 v3 v4 Fin by simp
  next
    case PInf
    show ?thesis unfolding v1 v2 v3 v4 PInf by simp
  next
    case NInf
    with conv md show ?thesis by simp
  next
    case NaN
    with conv md show ?thesis by simp
  next
    case Undefined
    with conv md show ?thesis by simp
  qed
qed

section \<open>The claims\<close>




text \<open>
  C2 (Gauss-Seidel order). A pass never fails, and it writes disposalCost, co2Cost,
  logisticsCost and ecoFees in this order on the one context: disposalCost is computed from
  the co2Cost the pass started with, co2Cost from the disposalCost just written,
  logisticsCost from the ecoFees the pass started with, and ecoFees from the logisticsCost
  and the co2Cost just written. The inputs are left as they are.
\<close>

theorem pass_reads_latest_values:
  "\<exists>d k l f.
     relaxationPass rnd c =
       Inr (c\<lparr>disposalCost := d, co2Cost := k, logisticsCost := l, ecoFees := f\<rparr>) \<and>
     d = js_add rnd (js_mul rnd (materialCost c) (rnd 0.8)) (co2Cost c) \<and>
     k = js_add rnd (js_mul rnd (energyCost c) (rnd 0.1)) (js_mul rnd d (rnd 0.05)) \<and>
     l = js_add rnd (transportCost c) (ecoFees c) \<and>
     f = js_add rnd (js_mul rnd l (rnd 0.1)) (js_mul rnd k (rnd 0.05))"
  by (simp add: relaxationPass_eq)

text \<open>
  On the initial context of Base the pass gives the co2Cost written 10.8, from the
  disposalCost 96 of the same pass; from the disposalCost 0 the pass started with it would be
  the one written 6.
\<close>

theorem pass_reads_latest_values_witness:
  "relaxationPass round64
     \<lparr>materialCost = Fin 120, energyCost = Fin 60, disposalCost = Fin 0,
       co2Cost = Fin 0, transportCost = Fin 35, logisticsCost = Fin 0,
       ecoFees = Fin 0\<rparr> =
   Inr \<lparr>materialCost = Fin 120, energyCost = Fin 60, disposalCost = Fin 96,
       co2Cost = Fin (3039929748475085 / 281474976710656), transportCost = Fin 35,
       logisticsCost = Fin 35,
       ecoFees = Fin (4548635623644201 / 1125899906842624)\<rparr>"
proof -
  from pass_reads_latest_values[of round64
     "\<lparr>materialCost = Fin 120, energyCost = Fin 60, disposalCost = Fin 0,
       co2Cost = Fin 0, transportCost = Fin 35, logisticsCost = Fin 0,
       ecoFees = Fin 0\<rparr>"]
  obtain d k l f where
    "relaxationPass round64
       \<lparr>materialCost = Fin 120, energyCost = Fin 60, disposalCost = Fin 0,
       co2Cost = Fin 0, transportCost = Fin 35, logisticsCost = Fin 0,
       ecoFees = Fin 0\<rparr> =
     Inr (\<lparr>materialCost = Fin 120, energyCost = Fin 60, disposalCost = Fin 0,
       co2Cost = Fin 0, transportCost = Fin 35, logisticsCost = Fin 0,
       ecoFees = Fin 0\<rparr>\<lparr>disposalCost := d, co2Cost := k, logisticsCost := l, ecoFees := f\<rparr>)"
    and "d = js_add round64 (js_mul round64 (Fin 120) (round64 0.8)) (Fin 0)"
    and "k = js_add round64 (js_mul round64 (Fin 60) (round64 0.1)) (js_mul round64 d (round64 0.05))"
    and "l = js_add round64 (Fin 35) (Fin 0)"
    and "f = js_add round64 (js_mul round64 l (round64 0.1)) (js_mul round64 k (round64 0.05))"
    by auto
  then show ?thesis by (simp add: round64_values)
qed

text \<open>
  C3 (override precedence). Every run returns a context, whose three inputs are those of
  the initial context; and each input of the initial context is the manual override when
  there is one, else the value of the named scenario when it has one, else the value of
  Base, else the baseline declared in \<open>blocks\<close>.
\<close>

theorem override_precedence:
  "\<exists>r. runSimulation rnd s n th ov = Inr r \<and>
     materialCost r = materialCost (initialContext s ov) \<and>
     energyCost r = energyCost (initialContext s ov) \<and>
     transportCost r = transportCost (initialContext s ov) \<and>
     materialCost (initialContext s ov) =
       resolveSpec (manualValue ov Scenario.Production ''materialCost'')
         (scenarioValue s Scenario.Production ''materialCost'')
         (orEmpty (Scenario.Production Base) ''materialCost'')
         (baseline (Blocks.Production (blocks rnd)) ''materialCost'') \<and>
     energyCost (initialContext s ov) =
       resolveSpec (manualValue ov Scenario.Production ''energyCost'')
         (scenarioValue s Scenario.Production ''energyCost'')
         (orEmpty (Scenario.Production Base) ''energyCost'')
         (baseline (Blocks.Production (blocks rnd)) ''energyCost'') \<and>
     transportCost (initialContext s ov) =
       resolveSpec (manualValue ov Scenario.Logistics ''transportCost'')
         (scenarioValue s Scenario.Logistics ''transportCost'')
         (orEmpty (Scenario.Logistics Base) ''transportCost'')
         (baseline (Blocks.Logistics (blocks rnd)) ''transportCost'')"
proof -
  from runSimulation_result[of n rnd s th ov] obtain m where
    "runSimulation rnd s n th ov = Inr ((afterPass rnd ^^ m) (initialContext s ov))" by blast
  then show ?thesis
    using funpow_afterPass_inputs[where rnd = rnd and m = m and c = "initialContext s ov"]
      initialContext_materialCost[of s ov rnd] initialContext_energyCost[of s ov rnd]
      initialContext_transportCost[of s ov rnd]
    by simp
qed

text \<open>
  With scenario HighEnergyPrices and a manual energyCost of 75: materialCost comes from
  Base, energyCost from the manual override (the scenario says 90), transportCost from the
  scenario (Base says 35).
\<close>

theorem override_precedence_witness:
  "\<exists>r. runSimulation round64 ''HighEnergyPrices'' 100 (round64 0.001)
          (Some \<lparr>Scenario.Production = Some [''energyCost'' \<mapsto> Fin 75],
                 Scenario.Logistics = None\<rparr>) = Inr r \<and>
     materialCost r = Fin 120 \<and> energyCost r = Fin 75 \<and> transportCost r = Fin 40"
  using override_precedence[of round64 "''HighEnergyPrices''" 100 "round64 0.001"
      "Some \<lparr>Scenario.Production = Some [''energyCost'' \<mapsto> Fin 75],
             Scenario.Logistics = None\<rparr>"]
  by (auto simp: resolveSpec_def manualValue_def scenarioValue_def scenarios_def
      HighEnergyPrices_def Base_def orEmpty_def)

text \<open>
  C4 (unknown scenario). A scenario name that is not in the catalog gives no value to any
  attribute, and the run returns a context, the same one as the run of Base with the same
  other arguments.
\<close>

theorem unknown_scenario_is_Base:
  "map_of scenarios s = None \<Longrightarrow>
     runSimulation rnd s n th ov = runSimulation rnd ''Base'' n th ov \<and>
     (\<exists>r. runSimulation rnd s n th ov = Inr r) \<and>
     (\<forall>block name. scenarioValue s block name = None)"
  using runSimulation_result[of n rnd s th ov]
  by (auto simp: runSimulation_def initialContext_unknown scenarioValue_def)

theorem unknown_scenario_is_Base_witness:
  "map_of scenarios ''Unknown'' = None \<and>
   runSimulation round64 ''Unknown'' 100 (round64 0.001) None =
     runSimulation round64 ''Base'' 100 (round64 0.001) None \<and>
   (\<exists>r. runSimulation round64 ''Unknown'' 100 (round64 0.001) None = Inr r)"
proof -
  have h: "map_of scenarios ''Unknown'' = None" by (simp add: scenarios_def)
  from unknown_scenario_is_Base[OF h, of round64 100 "round64 0.001" None] h
  show ?thesis by blast
qed

text \<open>
  C5 (exhaustion). If none of the \<open>n\<close> passes allowed has a maximum delta strictly below
  the threshold, the run returns, as a plain context, the context after the \<open>n\<close>-th pass.
\<close>

theorem exhausted_returns_last_pass:
  "\<forall>k<n. \<not> js_lt (maxDelta rnd ((afterPass rnd ^^ k) (initialContext s ov))) th \<Longrightarrow>
   runSimulation rnd s n th ov = Inr ((afterPass rnd ^^ n) (initialContext s ov))"
  unfolding runSimulation_def using loop_exhausts[of n 0 rnd "initialContext s ov" th] by simp

text \<open>
  One pass of Base with threshold 0.001 is exhausted (its delta is 96); the context it
  returns is the very value that the run with threshold 100 returns on converging at its
  first pass: nothing in the result tells the two ends apart.
\<close>

theorem exhausted_returns_last_pass_witness:
  "\<not> js_lt (maxDelta round64 ((afterPass round64 ^^ 0) (initialContext ''Base'' None)))
       (round64 0.001) \<and>
   runSimulation round64 ''Base'' (Suc 0) (round64 0.001) None =
     Inr \<lparr>materialCost = Fin 120, energyCost = Fin 60, disposalCost = Fin 96,
       co2Cost = Fin (3039929748475085 / 281474976710656), transportCost = Fin 35,
       logisticsCost = Fin 35,
       ecoFees = Fin (4548635623644201 / 1125899906842624)\<rparr> \<and>
   runSimulation round64 ''Base'' (Suc 0) (round64 0.001) None =
     runSimulation round64 ''Base'' 100 (Fin 100) None"
proof -
  have h: "\<forall>k<Suc 0. \<not> js_lt (maxDelta round64
      ((afterPass round64 ^^ k) (initialContext ''Base'' None))) (round64 0.001)"
    by (simp add: initialContext_Base binary64_Base_delta1 round64_values)
  have "runSimulation round64 ''Base'' 100 (Fin 100) None =
     Inr \<lparr>materialCost = Fin 120, energyCost = Fin 60, disposalCost = Fin 96,
       co2Cost = Fin (3039929748475085 / 281474976710656), transportCost = Fin 35,
       logisticsCost = Fin 35,
       ecoFees = Fin (4548635623644201 / 1125899906842624)\<rparr>"
    using loop_converges[of 0 0 100 round64 "initialContext ''Base'' None" "Fin 100"]
    by (simp add: runSimulation_def initialContext_Base binary64_Base_delta1
        binary64_Base_pass1)
  with exhausted_returns_last_pass[OF h] h show ?thesis
    by (simp add: initialContext_Base binary64_Base_pass1)
qed

text \<open>
  C6 (no iteration allowed). With \<open>maxIterations = 0\<close> the run returns the initial context:
  the four calculated attributes are 0 and the three inputs are resolved by the precedence
  of C3.
\<close>

theorem zero_iterations:
  "runSimulation rnd s 0 th ov = Inr (initialContext s ov) \<and>
   disposalCost (initialContext s ov) = Fin 0 \<and>
   co2Cost (initialContext s ov) = Fin 0 \<and>
   logisticsCost (initialContext s ov) = Fin 0 \<and>
   ecoFees (initialContext s ov) = Fin 0 \<and>
   materialCost (initialContext s ov) =
       resolveSpec (manualValue ov Scenario.Production ''materialCost'')
         (scenarioValue s Scenario.Production ''materialCost'')
         (orEmpty (Scenario.Production Base) ''materialCost'')
         (baseline (Blocks.Production (blocks rnd)) ''materialCost'') \<and>
   energyCost (initialContext s ov) =
       resolveSpec (manualValue ov Scenario.Production ''energyCost'')
         (scenarioValue s Scenario.Production ''energyCost'')
         (orEmpty (Scenario.Production Base) ''energyCost'')
         (baseline (Blocks.Production (blocks rnd)) ''energyCost'') \<and>
   transportCost (initialContext s ov) =
       resolveSpec (manualValue ov Scenario.Logistics ''transportCost'')
         (scenarioValue s Scenario.Logistics ''transportCost'')
         (orEmpty (Scenario.Logistics Base) ''transportCost'')
         (baseline (Blocks.Logistics (blocks rnd)) ''transportCost'')"
proof -
  have "runSimulation rnd s 0 th ov = Inr (initialContext s ov)"
    unfolding runSimulation_def by (subst loop.simps) simp
  then show ?thesis
    using initialContext_materialCost[of s ov rnd] initialContext_energyCost[of s ov rnd]
      initialContext_transportCost[of s ov rnd]
    by (simp add: initialContext_calculated)
qed

text \<open>
  C7 as stated fails: a manual override of materialCost by NaN is not rejected. The run
  returns a context, and the pass has computed disposalCost, co2Cost and ecoFees from the
  NaN.
\<close>

theorem nonfinite_override_counterexample:
  "runSimulation round64 ''Base'' (Suc 0) (round64 0.001)
      (Some \<lparr>Scenario.Production = Some [''materialCost'' \<mapsto> NaN],
             Scenario.Logistics = None\<rparr>) =
     Inr \<lparr>materialCost = NaN, energyCost = Fin 60, disposalCost = NaN, co2Cost = NaN,
          transportCost = Fin 35, logisticsCost = Fin 35, ecoFees = NaN\<rparr> \<and>
   runSimulation round64 ''Base'' (Suc 0) (round64 0.001)
      (Some \<lparr>Scenario.Production = Some [''materialCost'' \<mapsto> NaN],
             Scenario.Logistics = None\<rparr>) \<noteq> Inl ValidationError"
proof -
  let ?ov = "Some \<lparr>Scenario.Production = Some [''materialCost'' \<mapsto> NaN],
             Scenario.Logistics = None\<rparr>"
  have c0: "initialContext ''Base'' ?ov =
     \<lparr>materialCost = NaN, energyCost = Fin 60, disposalCost = Fin 0, co2Cost = Fin 0,
      transportCost = Fin 35, logisticsCost = Fin 0, ecoFees = Fin 0\<rparr>"
    by (simp add: initialContext_def Let_def scenarios_def Base_def orEmpty_def readProp_def)
  have c1: "afterPass round64 \<lparr>materialCost = NaN, energyCost = Fin 60, disposalCost = Fin 0,
      co2Cost = Fin 0, transportCost = Fin 35, logisticsCost = Fin 0, ecoFees = Fin 0\<rparr> =
     \<lparr>materialCost = NaN, energyCost = Fin 60, disposalCost = NaN, co2Cost = NaN,
          transportCost = Fin 35, logisticsCost = Fin 35, ecoFees = NaN\<rparr>"
    by (simp add: afterPass_eq js_add_NaN_right round64_values)
  have "\<not> js_lt (maxDelta round64 (initialContext ''Base'' ?ov)) (round64 0.001)"
    unfolding c0 maxDelta_def c1 by (simp add: deltas_def Math_max_def round64_values)
  then have "runSimulation round64 ''Base'' (Suc 0) (round64 0.001) ?ov =
      Inr ((afterPass round64 ^^ Suc 0) (initialContext ''Base'' ?ov))"
    unfolding runSimulation_def
    using loop_exhausts[of "Suc 0" 0 round64 "initialContext ''Base'' ?ov" "round64 0.001"]
    by simp
  then show ?thesis by (simp add: c0 c1)
qed

text \<open>
  C7, amended. No value is checked for finiteness: every run returns a context, and a
  manual override of an input attribute, whatever its value, is the value of that input in
  the returned context.
\<close>

theorem manual_override_not_validated:
  "\<exists>r. runSimulation rnd s n th ov = Inr r \<and>
     (\<forall>v. manualValue ov Scenario.Production ''materialCost'' = Some v \<longrightarrow> materialCost r = v) \<and>
     (\<forall>v. manualValue ov Scenario.Production ''energyCost'' = Some v \<longrightarrow> energyCost r = v) \<and>
     (\<forall>v. manualValue ov Scenario.Logistics ''transportCost'' = Some v \<longrightarrow> transportCost r = v)"
proof -
  from runSimulation_result[of n rnd s th ov] obtain m where
    "runSimulation rnd s n th ov = Inr ((afterPass rnd ^^ m) (initialContext s ov))" by blast
  then show ?thesis
    using funpow_afterPass_inputs[where rnd = rnd and m = m and c = "initialContext s ov"]
      initialContext_materialCost[of s ov rnd] initialContext_energyCost[of s ov rnd]
      initialContext_transportCost[of s ov rnd]
    by (auto simp: resolveSpec_manual)
qed

theorem manual_override_not_validated_witness:
  "manualValue (Some \<lparr>Scenario.Production = Some [''materialCost'' \<mapsto> PInf],
             Scenario.Logistics = None\<rparr>) Scenario.Production ''materialCost'' = Some PInf \<and>
   (\<exists>r. runSimulation round64 ''HighEnergyPrices'' 100 (round64 0.001)
      (Some \<lparr>Scenario.Production = Some [''materialCost'' \<mapsto> PInf],
             Scenario.Logistics = None\<rparr>) = Inr r \<and> materialCost r = PInf)"
proof -
  have h: "manualValue (Some \<lparr>Scenario.Production = Some [''materialCost'' \<mapsto> PInf],
             Scenario.Logistics = None\<rparr>) Scenario.Production ''materialCost'' = Some PInf"
    by (simp add: manualValue_def orEmpty_def)
  from manual_override_not_validated[of round64 "''HighEnergyPrices''" 100 "round64 0.001"
      "Some \<lparr>Scenario.Production = Some [''materialCost'' \<mapsto> PInf],
             Scenario.Logistics = None\<rparr>"] h
  show ?thesis by blast
qed

text \<open>
  C8 as stated fails: for an attribute declared calculated and without a formula, the
  call of its formula raises the runtime's TypeError, not a ConfigError.
\<close>

theorem missing_formula_counterexample:
  "callFormula [(''disposalCost'', \<lparr>type = calculated, value = None, formula = None\<rparr>)]
      ''disposalCost''
      \<lparr>materialCost = Fin 120, energyCost = Fin 60, disposalCost = Fin 0, co2Cost = Fin 0,
       transportCost = Fin 35, logisticsCost = Fin 0, ecoFees = Fin 0\<rparr> = Inl TypeError \<and>
   callFormula [(''disposalCost'', \<lparr>type = calculated, value = None, formula = None\<rparr>)]
      ''disposalCost''
      \<lparr>materialCost = Fin 120, energyCost = Fin 60, disposalCost = Fin 0, co2Cost = Fin 0,
       transportCost = Fin 35, logisticsCost = Fin 0, ecoFees = Fin 0\<rparr> \<noteq> Inl ConfigError"
  by (simp add: callFormula_def)

text \<open>
  C8, amended. Every attribute that \<open>blocks\<close> declares calculated has a formula, so no
  pass and no run fails; calling the formula of an attribute that has none is a TypeError.
\<close>

theorem calculated_attributes_have_formulas:
  "(\<forall>(name, a) \<in> set (Blocks.Production (blocks rnd) @ Blocks.Logistics (blocks rnd)).
      type a = calculated \<longrightarrow> formula a \<noteq> None) \<and>
   (\<exists>c'. relaxationPass rnd c = Inr c') \<and>
   (\<exists>r. runSimulation rnd s n th ov = Inr r) \<and>
   (\<forall>block name a context. map_of block name = Some a \<longrightarrow> formula a = None \<longrightarrow>
      callFormula block name context = Inl TypeError)"
proof -
  have 1: "\<forall>(name, a) \<in> set (Blocks.Production (blocks rnd) @ Blocks.Logistics (blocks rnd)).
      type a = calculated \<longrightarrow> formula a \<noteq> None"
    by (simp add: blocks_def)
  have 2: "\<exists>c'. relaxationPass rnd c = Inr c'" by (simp add: relaxationPass_total)
  have 3: "\<exists>r. runSimulation rnd s n th ov = Inr r"
    using runSimulation_result[of n rnd s th ov] by blast
  have 4: "\<forall>block name a context. map_of block name = Some a \<longrightarrow> formula a = None \<longrightarrow>
      callFormula block name context = Inl TypeError"
    by (simp add: callFormula_def)
  from 1 2 3 4 show ?thesis by blast
qed

theorem calculated_attributes_have_formulas_witness:
  "(''co2Cost'', \<lparr>type = calculated, value = None,
          formula = Some (\<lambda>ctx. js_add round64 (js_mul round64 (energyCost ctx) (round64 0.1))
                                       (js_mul round64 (disposalCost ctx) (round64 0.05)))\<rparr>)
     \<in> set (Blocks.Production (blocks round64) @ Blocks.Logistics (blocks round64)) \<and>
   formula \<lparr>type = calculated, value = None,
          formula = Some (\<lambda>ctx. js_add round64 (js_mul round64 (energyCost ctx) (round64 0.1))
                                       (js_mul round64 (disposalCost ctx) (round64 0.05)))\<rparr> \<noteq> None \<and>
   (\<exists>r. runSimulation round64 ''Base'' 100 (round64 0.001) None = Inr r)"
proof -
  let ?a = "\<lparr>type = calculated, value = None,
          formula = Some (\<lambda>ctx. js_add round64 (js_mul round64 (energyCost ctx) (round64 0.1))
                                       (js_mul round64 (disposalCost ctx) (round64 0.05)))\<rparr>"
  have h: "(''co2Cost'', ?a) \<in> set (Blocks.Production (blocks round64) @ Blocks.Logistics (blocks round64))"
    by (simp add: blocks_def)
  have t: "type ?a = calculated" by simp
  from calculated_attributes_have_formulas[of round64 "initialContext ''Base'' None" "''Base''"
      100 "round64 0.001" None]
  have "(\<forall>(name, a) \<in> set (Blocks.Production (blocks round64) @ Blocks.Logistics (blocks round64)).
      type a = calculated \<longrightarrow> formula a \<noteq> None)"
    and r: "\<exists>r. runSimulation round64 ''Base'' 100 (round64 0.001) None = Inr r" by blast+
  with h t have "formula ?a \<noteq> None" by blast
  with h r show ?thesis by blast
qed




text \<open>
  C10 (overrides of calculated attributes). Adding to the manual overrides entries whose
  names are those of calculated attributes does not change the result of the run.
\<close>

theorem calculated_overrides_ignored:
  "dom p \<subseteq> calculatedNames \<Longrightarrow> dom l \<subseteq> calculatedNames \<Longrightarrow>
   runSimulation rnd s n th (withEntries ov p l) = runSimulation rnd s n th ov"
  by (simp add: runSimulation_def initialContext_withEntries)

theorem calculated_overrides_ignored_witness:
  "dom [''disposalCost'' \<mapsto> Fin 5] \<subseteq> calculatedNames \<and>
   dom [''ecoFees'' \<mapsto> Fin 7] \<subseteq> calculatedNames \<and>
   runSimulation round64 ''Base'' 100 (round64 0.001)
       (withEntries None [''disposalCost'' \<mapsto> Fin 5] [''ecoFees'' \<mapsto> Fin 7]) =
     runSimulation round64 ''Base'' 100 (round64 0.001) None"
proof -
  have h: "dom [''disposalCost'' \<mapsto> Fin 5] \<subseteq> calculatedNames"
    "dom [''ecoFees'' \<mapsto> Fin 7] \<subseteq> calculatedNames"
    by (simp_all add: calculatedNames_def)
  from calculated_overrides_ignored[OF h] h show ?thesis by simp
qed

end
